theory Spec2Isabelle
  imports Main
begin

section \<open>Strings, multidicts and exceptions\<close>

text \<open>
  A Python \<open>str\<close> is a \<open>string\<close>; every character of the model is one Python character.
  \<open>lower\<close> is \<open>str.lower\<close> on the ASCII letters, the only letters the handler's
  literals and HTTP header names hold.
\<close>

definition lower_char :: "char \<Rightarrow> char" where
  "lower_char c =
     (let n = (of_char c :: nat) in if 65 \<le> n \<and> n \<le> 90 then char_of (n + 32) else c)"

definition lower :: "string \<Rightarrow> string" where
  "lower s = map lower_char s"

text \<open>\<open>startswith s p\<close> is \<open>s.startswith(p)\<close>; \<open>str_in sub s\<close> is Python's \<open>sub in s\<close>.\<close>

fun startswith :: "string \<Rightarrow> string \<Rightarrow> bool" where
  "startswith s [] = True"
| "startswith [] (p # ps) = False"
| "startswith (c # cs) (p # ps) = (c = p \<and> startswith cs ps)"

fun str_in :: "string \<Rightarrow> string \<Rightarrow> bool" where
  "str_in sub [] = (sub = [])"
| "str_in sub (c # cs) = (startswith (c # cs) sub \<or> str_in sub cs)"

text \<open>\<open>str_int\<close> is the decimal text an f-string gives an \<open>int\<close>.\<close>

definition digit_char :: "nat \<Rightarrow> char" where
  "digit_char d = char_of (48 + d)"

function str_nat :: "nat \<Rightarrow> string" where
  "str_nat n = (if n < 10 then [digit_char n] else str_nat (n div 10) @ [digit_char (n mod 10)])"
  by pat_completeness auto
termination
  by (relation "measure (\<lambda>n. n)") auto

declare str_nat.simps [simp del]

definition str_int :: "int \<Rightarrow> string" where
  "str_int i = (if i < 0 then CHR ''-'' # str_nat (nat (- i)) else str_nat (nat i))"

text \<open>
  aiohttp keeps the headers of a request and of a response in a case-insensitive
  multidict: an ordered list of name and value pairs whose names are compared without
  regard to case. \<open>ci_get\<close> is \<open>headers.get(name)\<close>, the first value under the name:
  \<open>name in headers\<close> holds when it is not \<open>None\<close>, and \<open>headers[name]\<close> is then
  that value. \<open>ci_get_default\<close> is \<open>headers.get(name, default)\<close>, and \<open>ci_set\<close> is
  \<open>headers[name] = value\<close>, which replaces the first entry under the name, drops the
  others and appends when there is none.
\<close>

type_synonym headers = "(string \<times> string) list"

fun ci_get :: "string \<Rightarrow> headers \<Rightarrow> string option" where
  "ci_get name [] = None"
| "ci_get name ((k, v) # hs) = (if lower k = lower name then Some v else ci_get name hs)"

definition ci_get_default :: "string \<Rightarrow> string \<Rightarrow> headers \<Rightarrow> string" where
  "ci_get_default name dflt hs = (case ci_get name hs of None \<Rightarrow> dflt | Some v \<Rightarrow> v)"

definition ci_del :: "string \<Rightarrow> headers \<Rightarrow> headers" where
  "ci_del name hs = filter (\<lambda>(k, v). lower k \<noteq> lower name) hs"

fun ci_set :: "string \<Rightarrow> string \<Rightarrow> headers \<Rightarrow> headers" where
  "ci_set name val [] = [(name, val)]"
| "ci_set name val ((k, v) # hs) =
     (if lower k = lower name then (name, val) # ci_del name hs
      else (k, v) # ci_set name val hs)"

text \<open>
  An exception is the text \<open>str(e)\<close> and its class as far as the handler's
  \<open>except\<close> clauses tell classes apart: an instance of \<open>ConnectionResetError\<close>, of
  \<open>BrokenPipeError\<close>, of \<open>asyncio.CancelledError\<close>, or of any other class that
  derives from \<open>Exception\<close> (\<open>aiohttp.ClientError\<close>, \<open>asyncio.TimeoutError\<close>,
  \<open>OSError\<close>, ...). \<open>asyncio.CancelledError\<close> derives from \<open>BaseException\<close> only
  (Python 3.8 and later), so \<open>except Exception\<close> does not catch it.
\<close>

datatype exn_class = ConnectionResetError | BrokenPipeError | CancelledError | OtherException

record exn =
  exn_class :: exn_class
  exn_str :: string

definition is_Exception :: "exn \<Rightarrow> bool" where
  "is_Exception e = (exn_class e \<noteq> CancelledError)"

section \<open>Configuration, request, upstream and caller\<close>

text \<open>
  The two module constants the handler reads, set once from the process environment
  (lines 19 and 20).
\<close>

record config =
  USE_UPSTREAM :: bool
  UPSTREAM_PROXY_URL :: string

definition load_config :: "(string \<rightharpoonup> string) \<Rightarrow> config" where
  "load_config getenv =
     \<lparr>USE_UPSTREAM =
        (lower (case getenv ''USE_UPSTREAM'' of None \<Rightarrow> ''true'' | Some v \<Rightarrow> v) \<noteq> ''false''),
      UPSTREAM_PROXY_URL =
        (case getenv ''UPSTREAM_PROXY_URL'' of None \<Rightarrow> ''http://192.168.1.79:3128''
         | Some v \<Rightarrow> v)\<rparr>"

text \<open>
  The inbound request: its method, its query (a multidict with case-sensitive keys) and
  its headers.
\<close>

record request =
  req_method :: string
  req_query :: "(string \<times> string) list"
  req_headers :: headers

text \<open>
  What the handler asks of aiohttp's client: \<open>session.head\<close> or \<open>session.get\<close>, the
  URL, the \<open>proxy\<close> argument, the connector's \<open>ssl\<close> argument (\<open>False\<close>, or the
  module's \<open>ssl_context\<close> built from the system's default certificates), the session's
  default headers and its total timeout in seconds.
\<close>

datatype http_method = HEAD | GET

datatype ssl_mode = SslFalse | SslContext

record fetch_call =
  fc_method :: http_method
  fc_url :: string
  fc_proxy :: "string option"
  fc_ssl :: ssl_mode
  fc_headers :: "string \<rightharpoonup> string"
  fc_timeout_total :: nat
  fc_allow_redirects :: bool

record upstream_response =
  up_status :: int
  up_reason :: string
  up_headers :: headers

text \<open>
  One turn of \<open>async for chunk in response.content.iter_chunked(8192)\<close> with its
  \<open>await resp.write(chunk)\<close>: the chunk is read and written, or reading raises, or the
  chunk is read and writing it raises. The body ends where the list ends.
\<close>

type_synonym bytes = string

datatype step = ChunkWritten bytes | ReadRaises exn | WriteRaises bytes exn

text \<open>
  Everything outside the handler that decides a run: whether building the connector and
  the session raises, what the fetch gives (an exception or the response head), whether
  \<open>resp.prepare\<close> raises, the turns of the body copy, and whether \<open>resp.write_eof\<close>
  raises.
\<close>

record env =
  setup_error :: "exn option"
  fetch_result :: "exn + upstream_response"
  prepare_error :: "exn option"
  body :: "step list"
  eof_error :: "exn option"

text \<open>
  The response objects the handler builds: \<open>web.json_response\<close> of a dict of strings,
  \<open>web.Response\<close> with a status only, and the \<open>web.StreamResponse\<close> with the
  headers the handler has set on it. What reaches the caller's connection while the
  handler runs is a list of events: the head of the stream response flushed by
  \<open>prepare\<close>, each chunk written, and the end-of-body mark. The headers of a
  \<open>Prepared\<close> event are those the handler set; the ones aiohttp adds by itself when
  it serialises a response are not the handler's.
\<close>

datatype response =
    JsonResponse int "(string \<times> string) list"
  | EmptyResponse int
  | StreamResponse int headers

datatype wire_event = Prepared int headers | Wrote bytes | WroteEof

text \<open>
  The log: \<open>log_with_emoji\<close> lines carry their emoji, named here, and
  \<open>logger.debug\<close> lines their text. \<open>InfoCache e c s\<close> is the line whose message is
  the cache status text \<open>s\<close> after its own emoji \<open>c\<close>.
\<close>

datatype emoji =
    Satellite | Link | CrossMark | Dart | Arrows | BarChart | CheckMark | Memo | Ruler
  | AlarmClock | Label | Magnifier | Snowflake

datatype log_entry = Info emoji string | InfoCache emoji emoji string | Debug string

definition log_with_emoji :: "emoji \<Rightarrow> string \<Rightarrow> log_entry" where
  "log_with_emoji e message = Info e message"

text \<open>
  A run of the handler: the response it returns or the exception it lets through, the
  fetch it issued if any, what it put on the caller's connection, and its log.
\<close>

record outcome =
  result :: "exn + response"
  fetched :: "fetch_call option"
  sent :: "wire_event list"
  logs :: "log_entry list"

section \<open>The handler\<close>

text \<open>A value is truthy when it is neither \<open>None\<close> nor the empty string.\<close>

definition truthy :: "string option \<Rightarrow> bool" where
  "truthy t = (case t of None \<Rightarrow> False | Some u \<Rightarrow> u \<noteq> [])"

text \<open>The text of the target URL in the second log line (line 46).\<close>

definition target_url_text :: "string option \<Rightarrow> string" where
  "target_url_text target_url =
     (case target_url of
        None \<Rightarrow> ''MISSING''
      | Some u \<Rightarrow>
          if u \<noteq> [] \<and> length u > 100 then take 100 u @ ''...''
          else if u \<noteq> [] then u else ''MISSING'')"

text \<open>The \<open>headers\<close> dict of the outbound request (lines 58 to 74).\<close>

definition build_headers :: "config \<Rightarrow> request \<Rightarrow> (string \<rightharpoonup> string)" where
  "build_headers cfg request =
     (let headers =
            [''User-Agent'' \<mapsto>
               ci_get_default ''User-Agent'' ''Mozilla/5.0 (compatible; HTTPProxy/1.0)''
                 (req_headers request)];
          headers =
            (if USE_UPSTREAM cfg then headers(''Cache-Control'' \<mapsto> ''max-age=3600'')
             else headers);
          headers =
            (case ci_get ''Range'' (req_headers request) of
               None \<Rightarrow> headers | Some v \<Rightarrow> headers(''Range'' \<mapsto> v));
          headers =
            (case ci_get ''Referer'' (req_headers request) of
               None \<Rightarrow> headers | Some v \<Rightarrow> headers(''Referer'' \<mapsto> v))
      in headers)"

text \<open>
  The connector, the session and the call of \<open>session.head\<close> or \<open>session.get\<close>
  (lines 76 to 102):
  \<open>proxy\<close> is the configured address when \<open>USE_UPSTREAM\<close> holds and \<open>None\<close>
  otherwise; \<open>ssl\<close> is \<open>False\<close> when \<open>USE_UPSTREAM and proxy\<close> holds and the
  module's \<open>ssl_context\<close> otherwise.
\<close>

definition make_fetch_call ::
  "config \<Rightarrow> bool \<Rightarrow> string \<Rightarrow> (string \<rightharpoonup> string) \<Rightarrow> fetch_call" where
  "make_fetch_call cfg is_head_request decoded_url headers =
     (let proxy = (if USE_UPSTREAM cfg then Some (UPSTREAM_PROXY_URL cfg) else None);
          ssl = (if USE_UPSTREAM cfg \<and> truthy proxy then SslFalse else SslContext)
      in \<lparr>fc_method = (if is_head_request then HEAD else GET),
          fc_url = decoded_url,
          fc_proxy = proxy,
          fc_ssl = ssl,
          fc_headers = headers,
          fc_timeout_total = 30,
          fc_allow_redirects = True\<rparr>)"

text \<open>
  The headers of the stream response (lines 110 to 127): the allow-list loop, then the
  CORS headers.
\<close>

definition headers_to_forward :: "string list" where
  "headers_to_forward =
     [''content-type'', ''content-length'', ''content-range'', ''accept-ranges'',
      ''last-modified'', ''etag'', ''cache-control'', ''expires'']"

definition forward_header :: "headers \<Rightarrow> headers \<Rightarrow> string \<Rightarrow> headers" where
  "forward_header response_headers resp_headers header =
     (case ci_get header response_headers of
        None \<Rightarrow> resp_headers
      | Some v \<Rightarrow> ci_set header v resp_headers)"

definition forward_headers :: "headers \<Rightarrow> headers \<Rightarrow> headers" where
  "forward_headers response_headers resp_headers =
     foldl (forward_header response_headers) resp_headers headers_to_forward"

definition cors_headers :: headers where
  "cors_headers =
     [(''Access-Control-Allow-Origin'', ''*''),
      (''Access-Control-Allow-Headers'',
       ''Origin, X-Requested-With, Content-Type, Accept, Range, User-Agent''),
      (''Access-Control-Allow-Methods'', ''GET, HEAD, OPTIONS''),
      (''Access-Control-Expose-Headers'', ''Content-Range, Content-Length, Accept-Ranges'')]"

definition add_cors :: "headers \<Rightarrow> headers" where
  "add_cors resp_headers = foldl (\<lambda>hs (k, v). ci_set k v hs) resp_headers cors_headers"

definition resp_headers_of :: "headers \<Rightarrow> headers" where
  "resp_headers_of response_headers = add_cors (forward_headers response_headers [])"

text \<open>
  The cache diagnosis and the log lines about the upstream response (lines 129 to 150).
\<close>

definition cache_status :: "headers \<Rightarrow> emoji \<times> string" where
  "cache_status response_headers =
     (let x_cache =
            (if truthy (ci_get ''x-cache'' response_headers)
             then ci_get ''x-cache'' response_headers
             else ci_get ''x-cache-lookup'' response_headers)
      in case x_cache of
           None \<Rightarrow> (Magnifier, ''Cache status unknown'')
         | Some v \<Rightarrow>
             if v = [] then (Magnifier, ''Cache status unknown'')
             else if str_in ''HIT'' v then (Dart, ''CACHE HIT'')
             else (Snowflake, ''CACHE MISS''))"

definition response_logs :: "config \<Rightarrow> upstream_response \<Rightarrow> log_entry list" where
  "response_logs cfg response =
     [log_with_emoji CheckMark
        (''Response: '' @ str_int (up_status response) @ '' '' @ up_reason response),
      log_with_emoji Memo
        (''Content-Type: '' @ ci_get_default ''content-type'' ''unknown'' (up_headers response)),
      log_with_emoji Ruler
        (''Content-Length: ''
           @ ci_get_default ''content-length'' ''unknown'' (up_headers response))]
     @ (if USE_UPSTREAM cfg
        then [case cache_status (up_headers response) of (c, s) \<Rightarrow> InfoCache Arrows c s]
        else [])
     @ (case ci_get ''content-range'' (up_headers response) of
          None \<Rightarrow> []
        | Some v \<Rightarrow> [log_with_emoji BarChart (''Content-Range: '' @ v)])
     @ (case ci_get ''age'' (up_headers response) of
          None \<Rightarrow> []
        | Some v \<Rightarrow> [log_with_emoji AlarmClock (''Cache Age: '' @ v @ '' seconds'')])
     @ (case ci_get ''x-cache'' (up_headers response) of
          None \<Rightarrow> []
        | Some v \<Rightarrow> [log_with_emoji Label (''X-Cache: '' @ v)])"

text \<open>
  The body copy (lines 158 and 159): the chunks written before the loop ends, and the
  exception that ended it, if one did.
\<close>

fun copy_chunks :: "step list \<Rightarrow> bytes list \<times> exn option" where
  "copy_chunks [] = ([], None)"
| "copy_chunks (ChunkWritten chunk # rest) =
     (case copy_chunks rest of (chunks, e) \<Rightarrow> (chunk # chunks, e))"
| "copy_chunks (ReadRaises e # rest) = ([], Some e)"
| "copy_chunks (WriteRaises chunk e # rest) = ([], Some e)"

text \<open>
  The two \<open>except\<close> clauses around the copy (lines 160 to 168): \<open>Some lg\<close> when
  the clause returns
  \<open>resp\<close> (with the debug line it logs), \<open>None\<close> when the exception goes on, re-raised
  or not caught.
\<close>

definition on_copy_error :: "exn \<Rightarrow> log_entry list option" where
  "on_copy_error e =
     (if exn_class e = ConnectionResetError \<or> exn_class e = BrokenPipeError
         \<or> exn_class e = CancelledError
      then Some [Debug (''Client disconnected during streaming: '' @ exn_str e)]
      else if is_Exception e
      then (if str_in ''closing transport'' (lower (exn_str e))
               \<or> str_in ''connection'' (lower (exn_str e))
            then Some [Debug (''Connection closed during streaming: '' @ exn_str e)]
            else None)
      else None)"

text \<open>\<open>await resp.write_eof()\<close> and \<open>return resp\<close> (lines 170 and 171).\<close>

definition finish :: "response \<Rightarrow> wire_event list \<Rightarrow> log_entry list \<Rightarrow> env \<Rightarrow> outcome" where
  "finish resp evs lg env =
     (case eof_error env of
        Some e \<Rightarrow> \<lparr>result = Inl e, fetched = None, sent = evs, logs = lg\<rparr>
      | None \<Rightarrow> \<lparr>result = Inr resp, fetched = None, sent = evs @ [WroteEof], logs = lg\<rparr>)"

text \<open>The body of \<open>async with method(...) as response\<close> (lines 103 to 171).\<close>

definition relay :: "config \<Rightarrow> bool \<Rightarrow> upstream_response \<Rightarrow> env \<Rightarrow> outcome" where
  "relay cfg is_head_request response env =
     (if up_status response \<ge> 400
      then \<lparr>result =
              Inr (JsonResponse (up_status response)
                     [(''error'',
                       ''Upstream error: '' @ str_int (up_status response) @ '' ''
                         @ up_reason response)]),
            fetched = None,
            sent = [],
            logs =
              [log_with_emoji CrossMark
                 (''Upstream error: '' @ str_int (up_status response) @ '' ''
                    @ up_reason response)]\<rparr>
      else
        let resp_headers = resp_headers_of (up_headers response);
            resp = StreamResponse (up_status response) resp_headers;
            lg = response_logs cfg response
        in case prepare_error env of
             Some e \<Rightarrow> \<lparr>result = Inl e, fetched = None, sent = [], logs = lg\<rparr>
           | None \<Rightarrow>
               let prepared = [Prepared (up_status response) resp_headers]
               in if \<not> is_head_request
                  then (case copy_chunks (body env) of
                          (chunks, None) \<Rightarrow> finish resp (prepared @ map Wrote chunks) lg env
                        | (chunks, Some e) \<Rightarrow>
                            (case on_copy_error e of
                               Some dbg \<Rightarrow>
                                 \<lparr>result = Inr resp, fetched = None,
                                  sent = prepared @ map Wrote chunks, logs = lg @ dbg\<rparr>
                             | None \<Rightarrow>
                                 \<lparr>result = Inl e, fetched = None,
                                  sent = prepared @ map Wrote chunks, logs = lg\<rparr>))
                  else finish resp prepared lg env)"

text \<open>The body of the inner \<open>try\<close>: the fetch, then the relay.\<close>

definition fetch_and_relay :: "config \<Rightarrow> bool \<Rightarrow> fetch_call \<Rightarrow> env \<Rightarrow> outcome" where
  "fetch_and_relay cfg is_head_request call env =
     (case fetch_result env of
        Inl e \<Rightarrow> \<lparr>result = Inl e, fetched = Some call, sent = [], logs = []\<rparr>
      | Inr response \<Rightarrow> (relay cfg is_head_request response env)\<lparr>fetched := Some call\<rparr>)"

text \<open>The inner handler, \<open>except Exception as proxy_error\<close> (lines 173 to 192).\<close>

definition on_proxy_error :: "config \<Rightarrow> exn \<Rightarrow> response \<times> log_entry list" where
  "on_proxy_error cfg proxy_error =
     (let s = lower (exn_str proxy_error)
      in if str_in ''closing transport'' s \<or> str_in ''connection reset'' s
            \<or> str_in ''broken pipe'' s
         then (EmptyResponse 499,
               [Debug (''Connection closed during proxy operation: '' @ exn_str proxy_error)])
         else (JsonResponse 500
                 [(''error'', ''Proxy request failed''),
                  (''details'', exn_str proxy_error),
                  (''upstreamProxy'',
                   if USE_UPSTREAM cfg then UPSTREAM_PROXY_URL cfg else ''disabled'')],
               [log_with_emoji CrossMark (''Proxy error: '' @ exn_str proxy_error)]
               @ (if USE_UPSTREAM cfg \<and> (str_in ''proxy'' s \<or> str_in ''connection'' s)
                  then [log_with_emoji Arrows
                          ''Upstream proxy connection failed - no fallback configured'',
                        log_with_emoji CrossMark
                          ''Request failed because upstream proxy is required but inaccessible'']
                  else [])))"

definition inner_except :: "config \<Rightarrow> outcome \<Rightarrow> outcome" where
  "inner_except cfg out =
     (case result out of
        Inr r \<Rightarrow> out
      | Inl e \<Rightarrow>
          if is_Exception e
          then (case on_proxy_error cfg e of
                  (r, lg) \<Rightarrow> out\<lparr>result := Inr r, logs := logs out @ lg\<rparr>)
          else out)"

text \<open>The outer handler, \<open>except Exception as e\<close> (lines 194 to 196).\<close>

definition outer_except :: "outcome \<Rightarrow> outcome" where
  "outer_except out =
     (case result out of
        Inr r \<Rightarrow> out
      | Inl e \<Rightarrow>
          if is_Exception e
          then out\<lparr>result := Inr (JsonResponse 500 [(''error'', ''Internal server error'')]),
                   logs := logs out @ [log_with_emoji CrossMark (''Handler error: '' @ exn_str e)]\<rparr>
          else out)"

definition with_logs :: "log_entry list \<Rightarrow> outcome \<Rightarrow> outcome" where
  "with_logs lg out = out\<lparr>logs := lg @ logs out\<rparr>"

text \<open>
  \<open>proxy_handler\<close>. \<open>urllib.parse.unquote\<close> is the standard library's and is a
  parameter of the model. \<open>proceed\<close> is the handler from \<open>decoded_url\<close> on, reached
  when \<open>target_url\<close> is neither \<open>None\<close> nor empty.
\<close>

definition missing_url :: "log_entry list \<Rightarrow> outcome" where
  "missing_url lg0 =
     \<lparr>result = Inr (JsonResponse 400 [(''error'', ''Missing url parameter'')]),
      fetched = None,
      sent = [],
      logs = lg0 @ [log_with_emoji CrossMark ''Missing URL parameter'']\<rparr>"

definition proceed ::
  "(string \<Rightarrow> string) \<Rightarrow> config \<Rightarrow> request \<Rightarrow> env \<Rightarrow> bool \<Rightarrow> string \<Rightarrow> log_entry list
     \<Rightarrow> outcome" where
  "proceed unquote cfg request env is_head_request target_url lg0 =
     (let decoded_url = unquote target_url;
          lg1 = lg0
            @ [log_with_emoji Dart (''Proxying request to: '' @ decoded_url)]
            @ (if USE_UPSTREAM cfg
               then [log_with_emoji Arrows
                       (''Routing through upstream proxy: '' @ UPSTREAM_PROXY_URL cfg)]
               else [])
            @ (case ci_get ''Range'' (req_headers request) of
                 None \<Rightarrow> []
               | Some v \<Rightarrow> [log_with_emoji BarChart (''Range request: '' @ v)]);
          headers = build_headers cfg request;
          call = make_fetch_call cfg is_head_request decoded_url headers
      in case setup_error env of
           Some e \<Rightarrow> \<lparr>result = Inl e, fetched = None, sent = [], logs = lg1\<rparr>
         | None \<Rightarrow>
             with_logs lg1 (inner_except cfg (fetch_and_relay cfg is_head_request call env)))"

definition proxy_handler :: "(string \<Rightarrow> string) \<Rightarrow> config \<Rightarrow> request \<Rightarrow> env \<Rightarrow> outcome" where
  "proxy_handler unquote cfg request env =
     outer_except
       (let is_head_request = (req_method request = ''HEAD'');
            target_url = map_of (req_query request) ''url'';
            user_agent = ci_get_default ''User-Agent'' ''Unknown'' (req_headers request);
            lg0 = [log_with_emoji Satellite (''Proxy request received from: '' @ user_agent),
                   log_with_emoji Link (''Target URL: '' @ target_url_text target_url)]
        in case target_url of
             None \<Rightarrow> missing_url lg0
           | Some u \<Rightarrow>
               if u = [] then missing_url lg0
               else proceed unquote cfg request env is_head_request u lg0)"

section \<open>Notions the claims are stated with\<close>

text \<open>
  The headers the handler only reads for its log, and a header list without them: two
  upstream header lists differ in the diagnostic headers only when they are equal
  once these are left out.
\<close>

definition diagnostic_headers :: "string list" where
  "diagnostic_headers = [''x-cache'', ''x-cache-lookup'', ''age'']"

definition without_diagnostic :: "headers \<Rightarrow> headers" where
  "without_diagnostic hs = filter (\<lambda>(k, v). lower k \<notin> set diagnostic_headers) hs"

text \<open>
  The runs the witnesses are taken at: a ranged GET answered with 206 through the
  upstream proxy, and a HEAD for a whole file.
\<close>

definition example_cfg :: config where
  "example_cfg = \<lparr>USE_UPSTREAM = True, UPSTREAM_PROXY_URL = ''http://192.168.1.79:3128''\<rparr>"

definition range_request :: request where
  "range_request =
     \<lparr>req_method = ''GET'',
      req_query = [(''url'', ''http://example.com/file.mp4'')],
      req_headers = [(''Range'', ''bytes=0-1023'')]\<rparr>"

definition partial_content :: upstream_response where
  "partial_content =
     \<lparr>up_status = 206, up_reason = ''Partial Content'',
      up_headers =
        [(''Content-Type'', ''video/mp4''), (''Content-Range'', ''bytes 0-1023/2048''),
         (''Content-Length'', ''1024''), (''Server'', ''nginx''), (''Set-Cookie'', ''id=1''),
         (''X-Cache'', ''HIT from proxy'')]\<rparr>"

definition partial_content_env :: env where
  "partial_content_env =
     \<lparr>setup_error = None, fetch_result = Inr partial_content, prepare_error = None,
      body = [ChunkWritten ''first chunk'', ChunkWritten ''second chunk''],
      eof_error = None\<rparr>"

definition head_request :: request where
  "head_request =
     \<lparr>req_method = ''HEAD'',
      req_query = [(''url'', ''http://example.com/file.mp4'')],
      req_headers = []\<rparr>"

definition whole_file :: upstream_response where
  "whole_file =
     \<lparr>up_status = 200, up_reason = ''OK'',
      up_headers =
        [(''Content-Type'', ''video/mp4''), (''Content-Length'', ''1048576''),
         (''Accept-Ranges'', ''bytes''), (''Age'', ''12'')]\<rparr>"

definition whole_file_env :: env where
  "whole_file_env =
     \<lparr>setup_error = None, fetch_result = Inr whole_file, prepare_error = None,
      body = [ChunkWritten ''first chunk'', ChunkWritten ''second chunk''],
      eof_error = None\<rparr>"






section \<open>What the handlers around the relay keep\<close>

lemma fetched_with_logs [simp]: "fetched (with_logs lg out) = fetched out"
  by (simp add: with_logs_def)

lemma sent_with_logs [simp]: "sent (with_logs lg out) = sent out"
  by (simp add: with_logs_def)

lemma result_with_logs [simp]: "result (with_logs lg out) = result out"
  by (simp add: with_logs_def)

lemma fetched_inner_except [simp]: "fetched (inner_except cfg out) = fetched out"
  by (simp add: inner_except_def split: sum.splits prod.splits)

lemma sent_inner_except [simp]: "sent (inner_except cfg out) = sent out"
  by (simp add: inner_except_def split: sum.splits prod.splits)

lemma fetched_outer_except [simp]: "fetched (outer_except out) = fetched out"
  by (simp add: outer_except_def split: sum.splits)

lemma sent_outer_except [simp]: "sent (outer_except out) = sent out"
  by (simp add: outer_except_def split: sum.splits)

lemma fetched_fetch_and_relay [simp]:
  "fetched (fetch_and_relay cfg is_head_request call env) = Some call"
  by (simp add: fetch_and_relay_def split: sum.splits)

text \<open>The two ways through the test \<open>if not target_url\<close>.\<close>

lemma proxy_handler_missing:
  assumes "map_of (req_query request) ''url'' = None
             \<or> map_of (req_query request) ''url'' = Some []"
  shows "proxy_handler unquote cfg request env =
           missing_url
             [log_with_emoji Satellite
                (''Proxy request received from: ''
                   @ ci_get_default ''User-Agent'' ''Unknown'' (req_headers request)),
              log_with_emoji Link ''Target URL: MISSING'']"
  using assms
  by (auto simp: proxy_handler_def outer_except_def missing_url_def target_url_text_def)

lemma proxy_handler_proceed:
  assumes "map_of (req_query request) ''url'' = Some u" and "u \<noteq> []"
  shows "proxy_handler unquote cfg request env =
           outer_except
             (proceed unquote cfg request env (req_method request = ''HEAD'') u
                [log_with_emoji Satellite
                   (''Proxy request received from: ''
                      @ ci_get_default ''User-Agent'' ''Unknown'' (req_headers request)),
                 log_with_emoji Link (''Target URL: '' @ target_url_text (Some u))])"
  using assms by (simp add: proxy_handler_def)

lemma fetched_proceed:
  assumes "setup_error env = None"
  shows "fetched (proceed unquote cfg request env is_head u lg0) =
           Some (make_fetch_call cfg is_head (unquote u) (build_headers cfg request))"
  using assms by (simp add: proceed_def Let_def)

section \<open>From the relay to the handler\<close>

lemma result_inner_except:
  "result (inner_except cfg out) =
     (case result out of
        Inr r \<Rightarrow> Inr r
      | Inl e \<Rightarrow> if is_Exception e then Inr (fst (on_proxy_error cfg e)) else Inl e)"
  by (simp add: inner_except_def split: sum.splits prod.splits)

lemma result_outer_except:
  "result (outer_except out) =
     (case result out of
        Inr r \<Rightarrow> Inr r
      | Inl e \<Rightarrow>
          if is_Exception e then Inr (JsonResponse 500 [(''error'', ''Internal server error'')])
          else Inl e)"
  by (simp add: outer_except_def split: sum.splits)

lemma sent_fetch_and_relay:
  "fetch_result env = Inr response \<Longrightarrow>
   sent (fetch_and_relay cfg is_head call env) = sent (relay cfg is_head response env)"
  by (simp add: fetch_and_relay_def)

lemma result_fetch_and_relay:
  "fetch_result env = Inr response \<Longrightarrow>
   result (fetch_and_relay cfg is_head call env) = result (relay cfg is_head response env)"
  by (simp add: fetch_and_relay_def)

lemma sent_proxy_handler_relay:
  assumes "map_of (req_query request) ''url'' = Some u" and "u \<noteq> []"
    and "setup_error env = None" and "fetch_result env = Inr response"
  shows "sent (proxy_handler unquote cfg request env) =
           sent (relay cfg (req_method request = ''HEAD'') response env)"
  using assms
  by (simp add: proxy_handler_proceed proceed_def Let_def sent_fetch_and_relay)

lemma result_proxy_handler_relay:
  assumes "map_of (req_query request) ''url'' = Some u" and "u \<noteq> []"
    and "setup_error env = None" and "fetch_result env = Inr response"
  shows "result (proxy_handler unquote cfg request env) =
           (case result (relay cfg (req_method request = ''HEAD'') response env) of
              Inr r \<Rightarrow> Inr r
            | Inl e \<Rightarrow> if is_Exception e then Inr (fst (on_proxy_error cfg e)) else Inl e)"
  using assms
  by (simp add: proxy_handler_proceed proceed_def Let_def result_outer_except
        result_inner_except result_fetch_and_relay split: sum.splits)

lemma fetched_proxy_handler:
  assumes "map_of (req_query request) ''url'' = Some u" and "u \<noteq> []"
    and "setup_error env = None"
  shows "fetched (proxy_handler unquote cfg request env) =
           Some (make_fetch_call cfg (req_method request = ''HEAD'') (unquote u)
                   (build_headers cfg request))"
  using assms by (simp add: proxy_handler_proceed fetched_proceed)

text \<open>
  The default configuration with \<open>UPSTREAM_PROXY_URL\<close> set to the empty string in the
  environment: \<open>USE_UPSTREAM\<close> holds and the address is empty.
\<close>

lemma load_config_empty_address:
  "load_config [''UPSTREAM_PROXY_URL'' \<mapsto> []] = \<lparr>USE_UPSTREAM = True, UPSTREAM_PROXY_URL = []\<rparr>"
proof -
  have "lower ''true'' \<noteq> ''false''" by code_simp
  then show ?thesis by (simp add: load_config_def)
qed

section \<open>The headers of the stream response\<close>

text \<open>
  \<open>lower\<close> at the header names the handler and the claims spell out.
\<close>

lemma lower_names [simp]:
  "lower ''content-type'' = ''content-type''"
  "lower ''content-length'' = ''content-length''"
  "lower ''content-range'' = ''content-range''"
  "lower ''accept-ranges'' = ''accept-ranges''"
  "lower ''last-modified'' = ''last-modified''"
  "lower ''etag'' = ''etag''"
  "lower ''cache-control'' = ''cache-control''"
  "lower ''expires'' = ''expires''"
  "lower ''Access-Control-Allow-Origin'' = ''access-control-allow-origin''"
  "lower ''Access-Control-Allow-Headers'' = ''access-control-allow-headers''"
  "lower ''Access-Control-Allow-Methods'' = ''access-control-allow-methods''"
  "lower ''Access-Control-Expose-Headers'' = ''access-control-expose-headers''"
  "lower ''x-cache'' = ''x-cache''"
  "lower ''x-cache-lookup'' = ''x-cache-lookup''"
  "lower ''age'' = ''age''"
  by code_simp+

text \<open>
  Setting a name that the multidict does not hold yet appends it. The names of the
  allow-list and of the CORS headers differ pairwise without regard to case, so the
  two loops append: the stream response holds the allow-list headers the upstream
  gave, in the order of the allow-list, and then the four CORS headers.
\<close>

lemma ci_del_fresh:
  "\<forall>(k, v) \<in> set hs. lower k \<noteq> lower name \<Longrightarrow> ci_del name hs = hs"
  by (induction hs) (auto simp: ci_del_def)

lemma ci_set_fresh:
  "\<forall>(k, v) \<in> set hs. lower k \<noteq> lower name \<Longrightarrow> ci_set name val hs = hs @ [(name, val)]"
  by (induction hs) auto

lemma foldl_forward_header:
  assumes "distinct (map lower names)"
    and "\<forall>(k, v) \<in> set acc. lower k \<notin> lower ` set names"
  shows "foldl (forward_header uh) acc names =
           acc @ List.map_filter (\<lambda>name. map_option (Pair name) (ci_get name uh)) names"
  using assms
proof (induction names arbitrary: acc)
  case Nil
  then show ?case by simp
next
  case (Cons name names)
  show ?case
  proof (cases "ci_get name uh")
    case None
    with Cons show ?thesis
      by (simp add: forward_header_def split_beta)
  next
    case (Some v)
    from Cons.prems have fresh: "\<forall>(k, v) \<in> set acc. lower k \<noteq> lower name"
      by (auto simp: split_beta)
    have step: "forward_header uh acc name = acc @ [(name, v)]"
      by (simp add: forward_header_def Some ci_set_fresh [OF fresh])
    from Cons.prems have "\<forall>(k, v) \<in> set (acc @ [(name, v)]). lower k \<notin> lower ` set names"
      by (auto simp: split_beta)
    with Cons.IH [of "acc @ [(name, v)]"] Cons.prems(1) show ?thesis
      by (simp add: step Some)
  qed
qed

lemma foldl_ci_set_fresh:
  assumes "distinct (map (lower \<circ> fst) kvs)"
    and "\<forall>(k, v) \<in> set acc. lower k \<notin> (lower \<circ> fst) ` set kvs"
  shows "foldl (\<lambda>hs (k, v). ci_set k v hs) acc kvs = acc @ kvs"
  using assms
proof (induction kvs arbitrary: acc)
  case Nil
  then show ?case by simp
next
  case (Cons kv kvs)
  obtain name val where kv: "kv = (name, val)" by (cases kv)
  from Cons.prems have fresh: "\<forall>(k, v) \<in> set acc. lower k \<noteq> lower name"
    by (auto simp: kv split_beta)
  from Cons.prems
  have "\<forall>(k, v) \<in> set (acc @ [(name, val)]). lower k \<notin> (lower \<circ> fst) ` set kvs"
    by (auto simp: kv split_beta)
  with Cons.IH [of "acc @ [(name, val)]"] Cons.prems(1) show ?case
    by (simp add: kv ci_set_fresh [OF fresh])
qed

lemma forward_headers_eq:
  "forward_headers uh [] =
     List.map_filter (\<lambda>name. map_option (Pair name) (ci_get name uh)) headers_to_forward"
proof -
  have "distinct (map lower headers_to_forward)"
    by (simp add: headers_to_forward_def)
  then show ?thesis
    by (simp add: forward_headers_def foldl_forward_header)
qed

lemma fst_map_filter_Pair:
  "map fst (List.map_filter (\<lambda>name. map_option (Pair name) (g name)) names) =
     filter (\<lambda>name. g name \<noteq> None) names"
  by (induction names) (auto simp: split: option.splits)

lemma set_map_filter_Pair:
  "set (List.map_filter (\<lambda>name. map_option (Pair name) (g name)) names) =
     {(name, v). name \<in> set names \<and> g name = Some v}"
  by (induction names) (auto split: option.splits)

lemma map_filter_cong_set:
  "\<forall>x \<in> set xs. f x = g x \<Longrightarrow> List.map_filter f xs = List.map_filter g xs"
  by (induction xs) (auto split: option.splits)

lemma resp_headers_of_eq:
  "resp_headers_of uh =
     List.map_filter (\<lambda>name. map_option (Pair name) (ci_get name uh)) headers_to_forward
     @ cors_headers"
proof -
  let ?fw = "List.map_filter (\<lambda>name. map_option (Pair name) (ci_get name uh)) headers_to_forward"
  have d: "distinct (map (lower \<circ> fst) cors_headers)"
    by (simp add: cors_headers_def)
  have "fst ` set ?fw \<subseteq> set headers_to_forward"
    using fst_map_filter_Pair [of "\<lambda>name. ci_get name uh" headers_to_forward]
    by (metis filter_is_subset set_map)
  moreover have "\<forall>name \<in> set headers_to_forward. lower name \<notin> (lower \<circ> fst) ` set cors_headers"
    by (simp add: headers_to_forward_def cors_headers_def)
  ultimately have "\<forall>(k, v) \<in> set ?fw. lower k \<notin> (lower \<circ> fst) ` set cors_headers"
    by force
  then show ?thesis
    by (simp add: resp_headers_of_def add_cors_def forward_headers_eq foldl_ci_set_fresh [OF d])
qed

lemma set_resp_headers_of:
  "set (resp_headers_of uh) =
     {(name, v). name \<in> set headers_to_forward \<and> ci_get name uh = Some v} \<union> set cors_headers"
  by (simp add: resp_headers_of_eq set_map_filter_Pair)


text \<open>
  The diagnostic headers are not on the allow-list.
\<close>

lemma ci_get_without_diagnostic:
  "lower name \<notin> set diagnostic_headers \<Longrightarrow>
   ci_get name (without_diagnostic hs) = ci_get name hs"
  by (induction hs) (auto simp: without_diagnostic_def split: if_splits)

lemma resp_headers_of_without_diagnostic:
  "resp_headers_of (without_diagnostic uh) = resp_headers_of uh"
proof -
  have "\<forall>name \<in> set headers_to_forward. lower name \<notin> set diagnostic_headers"
    by (simp add: headers_to_forward_def diagnostic_headers_def)
  then have "\<forall>name \<in> set headers_to_forward.
               ci_get name (without_diagnostic uh) = ci_get name uh"
    by (simp add: ci_get_without_diagnostic)
  then have "\<forall>name \<in> set headers_to_forward.
               map_option (Pair name) (ci_get name (without_diagnostic uh))
                 = map_option (Pair name) (ci_get name uh)"
    by simp
  then have "List.map_filter (\<lambda>name. map_option (Pair name) (ci_get name (without_diagnostic uh)))
               headers_to_forward
             = List.map_filter (\<lambda>name. map_option (Pair name) (ci_get name uh))
                 headers_to_forward"
    by (rule map_filter_cong_set)
  then show ?thesis
    by (simp add: resp_headers_of_eq)
qed

section \<open>What the relay sends and returns\<close>

lemma sent_relay_head:
  assumes "up_status response < 400" and "prepare_error env = None"
  shows "sent (relay cfg True response env) =
           Prepared (up_status response) (resp_headers_of (up_headers response))
           # (if eof_error env = None then [WroteEof] else [])"
  using assms by (simp add: relay_def finish_def Let_def split: option.splits)




lemma no_body_without_relay:
  "sent (relay cfg True response env) = [] \<or>
   sent (relay cfg True response env) =
     [Prepared (up_status response) (resp_headers_of (up_headers response))] \<or>
   sent (relay cfg True response env) =
     [Prepared (up_status response) (resp_headers_of (up_headers response)), WroteEof]"
  by (simp add: relay_def finish_def Let_def split: option.splits)

lemma relay_outward:
  assumes "up_status r1 = up_status r2" and "up_reason r1 = up_reason r2"
    and "resp_headers_of (up_headers r1) = resp_headers_of (up_headers r2)"
    and "prepare_error env1 = prepare_error env2" and "body env1 = body env2"
    and "eof_error env1 = eof_error env2"
  shows "result (relay cfg is_head r1 env1) = result (relay cfg is_head r2 env2)
         \<and> sent (relay cfg is_head r1 env1) = sent (relay cfg is_head r2 env2)"
  using assms
  by (simp add: relay_def finish_def Let_def split: option.splits prod.splits)

lemma proceed_setup_error:
  assumes "setup_error env = Some e"
  shows "result (proceed unquote cfg request env is_head u lg0) = Inl e"
    and "fetched (proceed unquote cfg request env is_head u lg0) = None"
    and "sent (proceed unquote cfg request env is_head u lg0) = []"
  using assms by (simp_all add: proceed_def Let_def)

section \<open>Exceptions in the body copy and in the handlers\<close>







section \<open>The claims\<close>

text \<open>
  C5. A request whose \<open>url\<close> query parameter is absent or empty gets exactly the
  status 400 with the JSON body \<open>{"error": "Missing url parameter"}\<close>; no fetch is issued
  and nothing is put on the caller's connection by the handler. A \<open>url\<close> that is not
  empty is not validated any further: whatever it holds, the handler percent-decodes
  it and hands it to the client as the URL of the fetch (provided the connector and
  the session could be built).
\<close>

theorem missing_url_400_and_no_validation:
  "(map_of (req_query request) ''url'' = None \<or> map_of (req_query request) ''url'' = Some []
      \<longrightarrow> result (proxy_handler unquote cfg request env)
            = Inr (JsonResponse 400 [(''error'', ''Missing url parameter'')])
          \<and> fetched (proxy_handler unquote cfg request env) = None
          \<and> sent (proxy_handler unquote cfg request env) = [])
   \<and> (map_of (req_query request) ''url'' = Some u \<and> u \<noteq> [] \<and> setup_error env = None
      \<longrightarrow> map_option fc_url (fetched (proxy_handler unquote cfg request env))
            = Some (unquote u))"
proof (intro conjI impI)
  assume m: "map_of (req_query request) ''url'' = None
               \<or> map_of (req_query request) ''url'' = Some []"
  show "result (proxy_handler unquote cfg request env)
            = Inr (JsonResponse 400 [(''error'', ''Missing url parameter'')])"
    by (simp add: proxy_handler_missing [OF m] missing_url_def)
  show "fetched (proxy_handler unquote cfg request env) = None"
    by (simp add: proxy_handler_missing [OF m] missing_url_def)
  show "sent (proxy_handler unquote cfg request env) = []"
    by (simp add: proxy_handler_missing [OF m] missing_url_def)
next
  assume "map_of (req_query request) ''url'' = Some u \<and> u \<noteq> [] \<and> setup_error env = None"
  then show "map_option fc_url (fetched (proxy_handler unquote cfg request env))
               = Some (unquote u)"
    by (simp add: proxy_handler_proceed fetched_proceed make_fetch_call_def Let_def)
qed

text \<open>
  The witness: a request with no \<open>url\<close> parameter, and one whose \<open>url\<close> is not a URL
  at all (it holds no percent sign, so that \<open>unquote\<close> leaves it as it is).
\<close>

theorem missing_url_400_and_no_validation_witness:
  "result
     (proxy_handler id
        \<lparr>USE_UPSTREAM = False, UPSTREAM_PROXY_URL = ''http://192.168.1.79:3128''\<rparr>
        \<lparr>req_method = ''GET'', req_query = [(''uri'', ''http://example.com/'')],
         req_headers = []\<rparr>
        \<lparr>setup_error = None,
         fetch_result = Inl \<lparr>exn_class = OtherException, exn_str = ''unreachable''\<rparr>,
         prepare_error = None, body = [], eof_error = None\<rparr>)
     = Inr (JsonResponse 400 [(''error'', ''Missing url parameter'')])
   \<and> map_option fc_url
       (fetched
          (proxy_handler id
             \<lparr>USE_UPSTREAM = False, UPSTREAM_PROXY_URL = ''http://192.168.1.79:3128''\<rparr>
             \<lparr>req_method = ''GET'', req_query = [(''url'', ''not a url'')], req_headers = []\<rparr>
             \<lparr>setup_error = None,
              fetch_result = Inl \<lparr>exn_class = OtherException, exn_str = ''unreachable''\<rparr>,
              prepare_error = None, body = [], eof_error = None\<rparr>))
     = Some ''not a url''"
  using missing_url_400_and_no_validation
          [where request = "\<lparr>req_method = ''GET'',
                               req_query = [(''uri'', ''http://example.com/'')],
                               req_headers = []\<rparr>"
             and unquote = id
             and cfg = "\<lparr>USE_UPSTREAM = False,
                           UPSTREAM_PROXY_URL = ''http://192.168.1.79:3128''\<rparr>"
             and env = "\<lparr>setup_error = None,
                           fetch_result =
                             Inl \<lparr>exn_class = OtherException, exn_str = ''unreachable''\<rparr>,
                           prepare_error = None, body = [], eof_error = None\<rparr>"]
        missing_url_400_and_no_validation
          [where request = "\<lparr>req_method = ''GET'', req_query = [(''url'', ''not a url'')],
                               req_headers = []\<rparr>"
             and u = "''not a url''" and unquote = id
             and cfg = "\<lparr>USE_UPSTREAM = False,
                           UPSTREAM_PROXY_URL = ''http://192.168.1.79:3128''\<rparr>"
             and env = "\<lparr>setup_error = None,
                           fetch_result =
                             Inl \<lparr>exn_class = OtherException, exn_str = ''unreachable''\<rparr>,
                           prepare_error = None, body = [], eof_error = None\<rparr>"]
  by simp

text \<open>
  C4. When the upstream answers with a status of 400 or more, the handler puts nothing
  on the caller's connection (no head, no body byte of the upstream stream) and
  returns a JSON response with the same status whose body is the object with the one
  key \<open>error\<close>, its value the text \<open>Upstream error: \<close> followed by the upstream
  status and reason.
\<close>

theorem upstream_error_relayed_as_json:
  assumes "map_of (req_query request) ''url'' = Some u" and "u \<noteq> []"
    and "setup_error env = None" and "fetch_result env = Inr response"
    and "400 \<le> up_status response"
  shows "result (proxy_handler unquote cfg request env)
           = Inr (JsonResponse (up_status response)
                    [(''error'',
                      ''Upstream error: '' @ str_int (up_status response) @ '' ''
                        @ up_reason response)])
         \<and> sent (proxy_handler unquote cfg request env) = []"
  using assms
  by (simp add: result_proxy_handler_relay [OF assms(1-4)]
        sent_proxy_handler_relay [OF assms(1-4)] relay_def)

theorem upstream_error_relayed_as_json_witness:
  "result
     (proxy_handler id
        \<lparr>USE_UPSTREAM = True, UPSTREAM_PROXY_URL = ''http://192.168.1.79:3128''\<rparr>
        \<lparr>req_method = ''GET'', req_query = [(''url'', ''http://example.com/gone.mp4'')],
         req_headers = []\<rparr>
        \<lparr>setup_error = None,
         fetch_result =
           Inr \<lparr>up_status = 404, up_reason = ''Not Found'',
                up_headers = [(''Content-Type'', ''text/html''), (''Content-Length'', ''9'')]\<rparr>,
         prepare_error = None, body = [ChunkWritten ''not found''], eof_error = None\<rparr>)
     = Inr (JsonResponse 404 [(''error'', ''Upstream error: 404 Not Found'')])
   \<and> sent
       (proxy_handler id
          \<lparr>USE_UPSTREAM = True, UPSTREAM_PROXY_URL = ''http://192.168.1.79:3128''\<rparr>
          \<lparr>req_method = ''GET'', req_query = [(''url'', ''http://example.com/gone.mp4'')],
           req_headers = []\<rparr>
          \<lparr>setup_error = None,
           fetch_result =
             Inr \<lparr>up_status = 404, up_reason = ''Not Found'',
                  up_headers = [(''Content-Type'', ''text/html''), (''Content-Length'', ''9'')]\<rparr>,
           prepare_error = None, body = [ChunkWritten ''not found''], eof_error = None\<rparr>)
     = []"
proof -
  have s: "str_int 404 = ''404''" by code_simp
  show ?thesis
    using upstream_error_relayed_as_json
          [where request = "\<lparr>req_method = ''GET'',
                               req_query = [(''url'', ''http://example.com/gone.mp4'')],
                               req_headers = []\<rparr>"
             and u = "''http://example.com/gone.mp4''" and unquote = id
             and cfg = "\<lparr>USE_UPSTREAM = True,
                           UPSTREAM_PROXY_URL = ''http://192.168.1.79:3128''\<rparr>"
             and response = "\<lparr>up_status = 404, up_reason = ''Not Found'',
                  up_headers = [(''Content-Type'', ''text/html''), (''Content-Length'', ''9'')]\<rparr>"
             and env = "\<lparr>setup_error = None,
           fetch_result =
             Inr \<lparr>up_status = 404, up_reason = ''Not Found'',
                  up_headers = [(''Content-Type'', ''text/html''), (''Content-Length'', ''9'')]\<rparr>,
           prepare_error = None, body = [ChunkWritten ''not found''], eof_error = None\<rparr>"]
    by (simp add: s)
qed

text \<open>
  C3. For a request with a non-empty target URL the handler issues its fetch with
  exactly this header mapping: \<open>User-Agent\<close> always, the caller's when supplied and
  the fixed default otherwise; \<open>Cache-Control: max-age=3600\<close> if and only if
  \<open>USE_UPSTREAM\<close> holds; \<open>Range\<close> and \<open>Referer\<close> with the caller's values, each
  if and only if the caller supplied it; and no other name.
\<close>

theorem outbound_headers_exact:
  assumes "map_of (req_query request) ''url'' = Some u" and "u \<noteq> []"
    and "setup_error env = None"
  shows "\<exists>call. fetched (proxy_handler unquote cfg request env) = Some call
           \<and> (\<forall>name. fc_headers call name =
                 (if name = ''User-Agent''
                  then Some (case ci_get ''User-Agent'' (req_headers request) of
                               Some v \<Rightarrow> v
                             | None \<Rightarrow> ''Mozilla/5.0 (compatible; HTTPProxy/1.0)'')
                  else if name = ''Cache-Control''
                  then (if USE_UPSTREAM cfg then Some ''max-age=3600'' else None)
                  else if name = ''Range'' then ci_get ''Range'' (req_headers request)
                  else if name = ''Referer'' then ci_get ''Referer'' (req_headers request)
                  else None))"
proof -
  have "build_headers cfg request name =
          (if name = ''User-Agent''
           then Some (case ci_get ''User-Agent'' (req_headers request) of
                        Some v \<Rightarrow> v
                      | None \<Rightarrow> ''Mozilla/5.0 (compatible; HTTPProxy/1.0)'')
           else if name = ''Cache-Control''
           then (if USE_UPSTREAM cfg then Some ''max-age=3600'' else None)
           else if name = ''Range'' then ci_get ''Range'' (req_headers request)
           else if name = ''Referer'' then ci_get ''Referer'' (req_headers request)
           else None)" for name
    by (simp add: build_headers_def Let_def ci_get_default_def split: option.splits)
  then show ?thesis
    by (simp add: fetched_proxy_handler [OF assms] make_fetch_call_def Let_def)
qed

theorem outbound_headers_exact_witness:
  "(case fetched
           (proxy_handler id
              \<lparr>USE_UPSTREAM = True, UPSTREAM_PROXY_URL = ''http://192.168.1.79:3128''\<rparr>
              \<lparr>req_method = ''GET'', req_query = [(''url'', ''http://example.com/file.mp4'')],
               req_headers =
                 [(''user-agent'', ''VLC/3.0''), (''RANGE'', ''bytes=0-1023''),
                  (''Cookie'', ''session=1''), (''Authorization'', ''Basic dTpw'')]\<rparr>
              \<lparr>setup_error = None,
               fetch_result = Inl \<lparr>exn_class = OtherException, exn_str = ''unreachable''\<rparr>,
               prepare_error = None, body = [], eof_error = None\<rparr>) of
      None \<Rightarrow> False
    | Some call \<Rightarrow>
        fc_headers call ''User-Agent'' = Some ''VLC/3.0''
        \<and> fc_headers call ''Cache-Control'' = Some ''max-age=3600''
        \<and> fc_headers call ''Range'' = Some ''bytes=0-1023''
        \<and> fc_headers call ''Referer'' = None
        \<and> fc_headers call ''Cookie'' = None
        \<and> fc_headers call ''Authorization'' = None)"
proof -
  have l: "lower ''user-agent'' = ''user-agent''" "lower ''User-Agent'' = ''user-agent''"
    "lower ''RANGE'' = ''range''" "lower ''Range'' = ''range''"
    "lower ''Referer'' = ''referer''" "lower ''Cookie'' = ''cookie''"
    "lower ''Authorization'' = ''authorization''"
    by code_simp+
  from outbound_headers_exact
          [where request = "\<lparr>req_method = ''GET'',
                 req_query = [(''url'', ''http://example.com/file.mp4'')],
                 req_headers =
                   [(''user-agent'', ''VLC/3.0''), (''RANGE'', ''bytes=0-1023''),
                    (''Cookie'', ''session=1''), (''Authorization'', ''Basic dTpw'')]\<rparr>"
             and u = "''http://example.com/file.mp4''" and unquote = id
             and cfg = "\<lparr>USE_UPSTREAM = True,
                           UPSTREAM_PROXY_URL = ''http://192.168.1.79:3128''\<rparr>"
             and env = "\<lparr>setup_error = None,
               fetch_result = Inl \<lparr>exn_class = OtherException, exn_str = ''unreachable''\<rparr>,
               prepare_error = None, body = [], eof_error = None\<rparr>"]
  obtain call where f:
    "fetched
       (proxy_handler id
          \<lparr>USE_UPSTREAM = True, UPSTREAM_PROXY_URL = ''http://192.168.1.79:3128''\<rparr>
          \<lparr>req_method = ''GET'', req_query = [(''url'', ''http://example.com/file.mp4'')],
           req_headers =
             [(''user-agent'', ''VLC/3.0''), (''RANGE'', ''bytes=0-1023''),
              (''Cookie'', ''session=1''), (''Authorization'', ''Basic dTpw'')]\<rparr>
          \<lparr>setup_error = None,
           fetch_result = Inl \<lparr>exn_class = OtherException, exn_str = ''unreachable''\<rparr>,
           prepare_error = None, body = [], eof_error = None\<rparr>) = Some call"
    and h: "\<And>name. fc_headers call name =
           (if name = ''User-Agent''
            then Some (case ci_get ''User-Agent''
                              [(''user-agent'', ''VLC/3.0''), (''RANGE'', ''bytes=0-1023''),
                               (''Cookie'', ''session=1''), (''Authorization'', ''Basic dTpw'')] of
                         Some v \<Rightarrow> v
                       | None \<Rightarrow> ''Mozilla/5.0 (compatible; HTTPProxy/1.0)'')
            else if name = ''Cache-Control'' then Some ''max-age=3600''
            else if name = ''Range''
            then ci_get ''Range''
                   [(''user-agent'', ''VLC/3.0''), (''RANGE'', ''bytes=0-1023''),
                    (''Cookie'', ''session=1''), (''Authorization'', ''Basic dTpw'')]
            else if name = ''Referer''
            then ci_get ''Referer''
                   [(''user-agent'', ''VLC/3.0''), (''RANGE'', ''bytes=0-1023''),
                    (''Cookie'', ''session=1''), (''Authorization'', ''Basic dTpw'')]
            else None)"
    by auto
  show ?thesis by (simp add: f h l)
qed

text \<open>
  C2, as amended. The fetch of a request is issued in a mode fixed by \<open>USE_UPSTREAM\<close>
  and the configured address. When \<open>USE_UPSTREAM\<close> holds and the address is not empty,
  the request goes through that address with certificate verification off
  (\<open>ssl=False\<close>). When \<open>USE_UPSTREAM\<close> holds and the address is empty, the empty
  address is the \<open>proxy\<close> argument and certificates are verified against the system
  trust store. When \<open>USE_UPSTREAM\<close> does not hold, the request is direct
  (\<open>proxy=None\<close>), certificates are verified against the system trust store, and the
  run of the handler does not depend on the configured address at all.
\<close>

theorem routing_mode:
  assumes "map_of (req_query request) ''url'' = Some u" and "u \<noteq> []"
    and "setup_error env = None"
  shows "(USE_UPSTREAM cfg \<and> UPSTREAM_PROXY_URL cfg \<noteq> []
            \<longrightarrow> map_option (\<lambda>call. (fc_proxy call, fc_ssl call))
                  (fetched (proxy_handler unquote cfg request env))
                = Some (Some (UPSTREAM_PROXY_URL cfg), SslFalse))
         \<and> (USE_UPSTREAM cfg \<and> UPSTREAM_PROXY_URL cfg = []
            \<longrightarrow> map_option (\<lambda>call. (fc_proxy call, fc_ssl call))
                  (fetched (proxy_handler unquote cfg request env))
                = Some (Some [], SslContext))
         \<and> (\<not> USE_UPSTREAM cfg
            \<longrightarrow> map_option (\<lambda>call. (fc_proxy call, fc_ssl call))
                  (fetched (proxy_handler unquote cfg request env))
                = Some (None, SslContext)
                \<and> (\<forall>address.
                      proxy_handler unquote (cfg\<lparr>UPSTREAM_PROXY_URL := address\<rparr>) request env
                        = proxy_handler unquote cfg request env))"
proof -
  have indep: "proxy_handler unquote (cfg\<lparr>UPSTREAM_PROXY_URL := address\<rparr>) request env
                 = proxy_handler unquote cfg request env"
    if "\<not> USE_UPSTREAM cfg" for address
    using that
    by (simp add: proxy_handler_def proceed_def build_headers_def make_fetch_call_def
          fetch_and_relay_def relay_def response_logs_def inner_except_def
          on_proxy_error_def Let_def cong: option.case_cong sum.case_cong if_cong)
  show ?thesis
    using indep
    by (simp add: fetched_proxy_handler [OF assms] make_fetch_call_def truthy_def Let_def)
qed

theorem routing_mode_witness:
  "map_option (\<lambda>call. (fc_proxy call, fc_ssl call))
     (fetched
        (proxy_handler id
           \<lparr>USE_UPSTREAM = True, UPSTREAM_PROXY_URL = ''http://192.168.1.79:3128''\<rparr>
           \<lparr>req_method = ''GET'', req_query = [(''url'', ''https://example.com/file.mp4'')],
            req_headers = []\<rparr>
           \<lparr>setup_error = None,
            fetch_result = Inl \<lparr>exn_class = OtherException, exn_str = ''unreachable''\<rparr>,
            prepare_error = None, body = [], eof_error = None\<rparr>))
     = Some (Some ''http://192.168.1.79:3128'', SslFalse)
   \<and> map_option (\<lambda>call. (fc_proxy call, fc_ssl call))
       (fetched
          (proxy_handler id
             \<lparr>USE_UPSTREAM = True, UPSTREAM_PROXY_URL = []\<rparr>
             \<lparr>req_method = ''GET'', req_query = [(''url'', ''https://example.com/file.mp4'')],
              req_headers = []\<rparr>
             \<lparr>setup_error = None,
              fetch_result = Inl \<lparr>exn_class = OtherException, exn_str = ''unreachable''\<rparr>,
              prepare_error = None, body = [], eof_error = None\<rparr>))
     = Some (Some [], SslContext)
   \<and> map_option (\<lambda>call. (fc_proxy call, fc_ssl call))
       (fetched
          (proxy_handler id
             \<lparr>USE_UPSTREAM = False, UPSTREAM_PROXY_URL = ''http://192.168.1.79:3128''\<rparr>
             \<lparr>req_method = ''GET'', req_query = [(''url'', ''https://example.com/file.mp4'')],
              req_headers = []\<rparr>
             \<lparr>setup_error = None,
              fetch_result = Inl \<lparr>exn_class = OtherException, exn_str = ''unreachable''\<rparr>,
              prepare_error = None, body = [], eof_error = None\<rparr>))
     = Some (None, SslContext)"
  using routing_mode
          [where request = "\<lparr>req_method = ''GET'',
                               req_query = [(''url'', ''https://example.com/file.mp4'')],
                               req_headers = []\<rparr>"
             and u = "''https://example.com/file.mp4''" and unquote = id
             and cfg = "\<lparr>USE_UPSTREAM = True,
                           UPSTREAM_PROXY_URL = ''http://192.168.1.79:3128''\<rparr>"
             and env = "\<lparr>setup_error = None,
               fetch_result = Inl \<lparr>exn_class = OtherException, exn_str = ''unreachable''\<rparr>,
               prepare_error = None, body = [], eof_error = None\<rparr>"]
        routing_mode
          [where request = "\<lparr>req_method = ''GET'',
                               req_query = [(''url'', ''https://example.com/file.mp4'')],
                               req_headers = []\<rparr>"
             and u = "''https://example.com/file.mp4''" and unquote = id
             and cfg = "\<lparr>USE_UPSTREAM = True, UPSTREAM_PROXY_URL = []\<rparr>"
             and env = "\<lparr>setup_error = None,
               fetch_result = Inl \<lparr>exn_class = OtherException, exn_str = ''unreachable''\<rparr>,
               prepare_error = None, body = [], eof_error = None\<rparr>"]
        routing_mode
          [where request = "\<lparr>req_method = ''GET'',
                               req_query = [(''url'', ''https://example.com/file.mp4'')],
                               req_headers = []\<rparr>"
             and u = "''https://example.com/file.mp4''" and unquote = id
             and cfg = "\<lparr>USE_UPSTREAM = False,
                           UPSTREAM_PROXY_URL = ''http://192.168.1.79:3128''\<rparr>"
             and env = "\<lparr>setup_error = None,
               fetch_result = Inl \<lparr>exn_class = OtherException, exn_str = ''unreachable''\<rparr>,
               prepare_error = None, body = [], eof_error = None\<rparr>"]
  by simp

text \<open>
  The claim as written fails where \<open>USE_UPSTREAM\<close> holds and the configured address
  is empty: the test \<open>USE_UPSTREAM and proxy\<close> is then false and the connector
  verifies certificates.
\<close>

theorem routing_mode_counterexample:
  "\<not> (USE_UPSTREAM \<lparr>USE_UPSTREAM = True, UPSTREAM_PROXY_URL = []\<rparr>
        \<longrightarrow> map_option fc_ssl
              (fetched
                 (proxy_handler id \<lparr>USE_UPSTREAM = True, UPSTREAM_PROXY_URL = []\<rparr>
                    \<lparr>req_method = ''GET'',
                     req_query = [(''url'', ''https://example.com/file.mp4'')],
                     req_headers = []\<rparr>
                    \<lparr>setup_error = None,
                     fetch_result =
                       Inl \<lparr>exn_class = OtherException, exn_str = ''unreachable''\<rparr>,
                     prepare_error = None, body = [], eof_error = None\<rparr>))
            = Some SslFalse)"
  by (simp add: proxy_handler_def proceed_def make_fetch_call_def truthy_def Let_def)



text \<open>
  C7. A HEAD request never has a body chunk written to the caller, whatever the
  upstream does and however long the upstream body is. When the upstream answers it
  with a status below 400 and the head is flushed, the fetch was a HEAD, the caller
  gets the head alone (followed by the end-of-body mark when \<open>write_eof\<close> does not
  raise), and the head holds every allow-list header the upstream gave,
  \<open>content-length\<close> among them.
\<close>

theorem head_request_writes_no_body:
  assumes "req_method request = ''HEAD''"
  shows "(\<forall>chunk. Wrote chunk \<notin> set (sent (proxy_handler unquote cfg request env)))
         \<and> (map_of (req_query request) ''url'' = Some u \<and> u \<noteq> []
              \<and> setup_error env = None \<and> fetch_result env = Inr response
              \<and> up_status response < 400 \<and> prepare_error env = None
            \<longrightarrow> map_option fc_method (fetched (proxy_handler unquote cfg request env))
                  = Some HEAD
                \<and> (\<exists>hs. sent (proxy_handler unquote cfg request env)
                           = Prepared (up_status response) hs
                             # (if eof_error env = None then [WroteEof] else [])
                         \<and> (\<forall>name \<in> set headers_to_forward. \<forall>v.
                               ci_get name (up_headers response) = Some v
                                 \<longrightarrow> (name, v) \<in> set hs)))"
proof (intro conjI impI allI)
  fix chunk
  show "Wrote chunk \<notin> set (sent (proxy_handler unquote cfg request env))"
  proof (cases "map_of (req_query request) ''url'' = None
                  \<or> map_of (req_query request) ''url'' = Some []")
    case True
    then show ?thesis
      by (simp add: proxy_handler_missing missing_url_def)
  next
    case False
    then obtain t where t: "map_of (req_query request) ''url'' = Some t" "t \<noteq> []"
      by auto
    show ?thesis
    proof (cases "setup_error env")
      case (Some e)
      then show ?thesis
        by (simp add: proxy_handler_proceed [OF t] proceed_def Let_def)
    next
      case None
      show ?thesis
      proof (cases "fetch_result env")
        case (Inl e)
        with None show ?thesis
          by (simp add: proxy_handler_proceed [OF t] proceed_def Let_def fetch_and_relay_def)
      next
        case (Inr up)
        with no_body_without_relay [of cfg up env] show ?thesis
          by (auto simp: sent_proxy_handler_relay [OF t None Inr] assms)
      qed
    qed
  qed
next
  assume h: "map_of (req_query request) ''url'' = Some u \<and> u \<noteq> []
              \<and> setup_error env = None \<and> fetch_result env = Inr response
              \<and> up_status response < 400 \<and> prepare_error env = None"
  then show "map_option fc_method (fetched (proxy_handler unquote cfg request env)) = Some HEAD"
    by (simp add: fetched_proxy_handler make_fetch_call_def Let_def assms)
  from h have "sent (proxy_handler unquote cfg request env) =
                 Prepared (up_status response) (resp_headers_of (up_headers response))
                 # (if eof_error env = None then [WroteEof] else [])"
    by (simp add: sent_proxy_handler_relay [of request u env response] assms sent_relay_head)
  then show "\<exists>hs. sent (proxy_handler unquote cfg request env)
                     = Prepared (up_status response) hs
                       # (if eof_error env = None then [WroteEof] else [])
                   \<and> (\<forall>name \<in> set headers_to_forward. \<forall>v.
                         ci_get name (up_headers response) = Some v \<longrightarrow> (name, v) \<in> set hs)"
    by (simp add: set_resp_headers_of)
qed

theorem head_request_writes_no_body_witness:
  "req_method head_request = ''HEAD''
   \<and> map_of (req_query head_request) ''url'' = Some ''http://example.com/file.mp4''
   \<and> setup_error whole_file_env = None
   \<and> fetch_result whole_file_env = Inr whole_file
   \<and> up_status whole_file < 400
   \<and> prepare_error whole_file_env = None
   \<and> sent (proxy_handler id example_cfg head_request whole_file_env) =
       [Prepared 200
          ([(''content-type'', ''video/mp4''), (''content-length'', ''1048576''),
            (''accept-ranges'', ''bytes'')] @ cors_headers),
        WroteEof]"
proof -
  have h: "req_method head_request = ''HEAD''"
    by (simp add: head_request_def)
  have g: "map_of (req_query head_request) ''url'' = Some ''http://example.com/file.mp4''"
    "''http://example.com/file.mp4'' \<noteq> []"
    "setup_error whole_file_env = None"
    "fetch_result whole_file_env = Inr whole_file"
    "up_status whole_file < 400"
    "prepare_error whole_file_env = None"
    by (simp_all add: head_request_def whole_file_env_def whole_file_def)
  have l: "lower ''Content-Type'' = ''content-type''"
    "lower ''Content-Length'' = ''content-length''"
    "lower ''Accept-Ranges'' = ''accept-ranges''" "lower ''Age'' = ''age''"
    by code_simp+
  have r: "resp_headers_of (up_headers whole_file) =
             [(''content-type'', ''video/mp4''), (''content-length'', ''1048576''),
              (''accept-ranges'', ''bytes'')] @ cors_headers"
    by (simp add: resp_headers_of_eq headers_to_forward_def whole_file_def l)
  have e: "sent (proxy_handler id example_cfg head_request whole_file_env) =
       [Prepared 200
          ([(''content-type'', ''video/mp4''), (''content-length'', ''1048576''),
            (''accept-ranges'', ''bytes'')] @ cors_headers),
        WroteEof]"
    by (simp add: sent_proxy_handler_relay [OF g(1-4)] h sent_relay_head [OF g(5,6)] r)
      (simp add: whole_file_env_def whole_file_def)
  from head_request_writes_no_body
         [OF h, of id example_cfg whole_file_env "''http://example.com/file.mp4''" whole_file]
       h g e
  show ?thesis by simp
qed

text \<open>
  C9. Two runs of the handler on the same request whose upstream responses have the same
  status and reason and the same headers once \<open>x-cache\<close>, \<open>x-cache-lookup\<close> and
  \<open>age\<close> are left out, everything else behaving alike, return the same response,
  issue the same fetch and put the same events on the caller's connection: the cache
  diagnosis reaches the log only.
\<close>

theorem diagnostic_headers_do_not_matter:
  assumes "fetch_result env1 = Inr r1" and "fetch_result env2 = Inr r2"
    and "up_status r1 = up_status r2" and "up_reason r1 = up_reason r2"
    and "without_diagnostic (up_headers r1) = without_diagnostic (up_headers r2)"
    and "setup_error env1 = setup_error env2" and "prepare_error env1 = prepare_error env2"
    and "body env1 = body env2" and "eof_error env1 = eof_error env2"
  shows "result (proxy_handler unquote cfg request env1)
           = result (proxy_handler unquote cfg request env2)
         \<and> fetched (proxy_handler unquote cfg request env1)
           = fetched (proxy_handler unquote cfg request env2)
         \<and> sent (proxy_handler unquote cfg request env1)
           = sent (proxy_handler unquote cfg request env2)"
proof (cases "map_of (req_query request) ''url'' = None
                \<or> map_of (req_query request) ''url'' = Some []")
  case True
  then show ?thesis
    by (simp add: proxy_handler_missing)
next
  case False
  then obtain u where u: "map_of (req_query request) ''url'' = Some u" "u \<noteq> []"
    by auto
  show ?thesis
  proof (cases "setup_error env1")
    case (Some e)
    with assms(6) have "setup_error env2 = Some e" by simp
    with Some show ?thesis
      by (simp add: proxy_handler_proceed [OF u] result_outer_except proceed_setup_error)
  next
    case None
    with assms(6) have n2: "setup_error env2 = None" by simp
    have "resp_headers_of (up_headers r1) = resp_headers_of (up_headers r2)"
      using assms(5) resp_headers_of_without_diagnostic [of "up_headers r1"]
        resp_headers_of_without_diagnostic [of "up_headers r2"]
      by simp
    from relay_outward [OF assms(3,4) this assms(7,8,9)]
    show ?thesis
      by (simp add: result_proxy_handler_relay [OF u None assms(1)]
            result_proxy_handler_relay [OF u n2 assms(2)]
            sent_proxy_handler_relay [OF u None assms(1)]
            sent_proxy_handler_relay [OF u n2 assms(2)]
            fetched_proxy_handler [OF u None] fetched_proxy_handler [OF u n2])
  qed
qed

text \<open>
  At the witness the cache diagnosis is a hit in one run and a miss in the other, and
  the two runs return and send the same.
\<close>

theorem diagnostic_headers_do_not_matter_witness:
  "fetch_result partial_content_env = Inr partial_content
   \<and> fetch_result
       (partial_content_env
          \<lparr>fetch_result :=
             Inr (partial_content
                    \<lparr>up_headers :=
                       [(''Content-Type'', ''video/mp4''), (''X-Cache-Lookup'', ''MISS from proxy''),
                        (''Content-Range'', ''bytes 0-1023/2048''),
                        (''Content-Length'', ''1024''), (''Age'', ''7''), (''Server'', ''nginx''),
                        (''Set-Cookie'', ''id=1'')]\<rparr>)\<rparr>)
     = Inr (partial_content
              \<lparr>up_headers :=
                 [(''Content-Type'', ''video/mp4''), (''X-Cache-Lookup'', ''MISS from proxy''),
                  (''Content-Range'', ''bytes 0-1023/2048''),
                  (''Content-Length'', ''1024''), (''Age'', ''7''), (''Server'', ''nginx''),
                  (''Set-Cookie'', ''id=1'')]\<rparr>)
   \<and> without_diagnostic (up_headers partial_content)
     = without_diagnostic
         [(''Content-Type'', ''video/mp4''), (''X-Cache-Lookup'', ''MISS from proxy''),
          (''Content-Range'', ''bytes 0-1023/2048''),
          (''Content-Length'', ''1024''), (''Age'', ''7''), (''Server'', ''nginx''),
          (''Set-Cookie'', ''id=1'')]
   \<and> cache_status (up_headers partial_content) = (Dart, ''CACHE HIT'')
   \<and> cache_status
       [(''Content-Type'', ''video/mp4''), (''X-Cache-Lookup'', ''MISS from proxy''),
        (''Content-Range'', ''bytes 0-1023/2048''),
        (''Content-Length'', ''1024''), (''Age'', ''7''), (''Server'', ''nginx''),
        (''Set-Cookie'', ''id=1'')]
     = (Snowflake, ''CACHE MISS'')
   \<and> result (proxy_handler id example_cfg range_request partial_content_env)
     = result
         (proxy_handler id example_cfg range_request
            (partial_content_env
               \<lparr>fetch_result :=
                  Inr (partial_content
                         \<lparr>up_headers :=
                            [(''Content-Type'', ''video/mp4''),
                             (''X-Cache-Lookup'', ''MISS from proxy''),
                             (''Content-Range'', ''bytes 0-1023/2048''),
                             (''Content-Length'', ''1024''), (''Age'', ''7''),
                             (''Server'', ''nginx''), (''Set-Cookie'', ''id=1'')]\<rparr>)\<rparr>))
   \<and> sent (proxy_handler id example_cfg range_request partial_content_env)
     = sent
         (proxy_handler id example_cfg range_request
            (partial_content_env
               \<lparr>fetch_result :=
                  Inr (partial_content
                         \<lparr>up_headers :=
                            [(''Content-Type'', ''video/mp4''),
                             (''X-Cache-Lookup'', ''MISS from proxy''),
                             (''Content-Range'', ''bytes 0-1023/2048''),
                             (''Content-Length'', ''1024''), (''Age'', ''7''),
                             (''Server'', ''nginx''), (''Set-Cookie'', ''id=1'')]\<rparr>)\<rparr>))"
proof -
  let ?hs = "[(''Content-Type'', ''video/mp4''), (''X-Cache-Lookup'', ''MISS from proxy''),
              (''Content-Range'', ''bytes 0-1023/2048''),
              (''Content-Length'', ''1024''), (''Age'', ''7''), (''Server'', ''nginx''),
              (''Set-Cookie'', ''id=1'')]"
  let ?r2 = "partial_content\<lparr>up_headers := ?hs\<rparr>"
  let ?env2 = "partial_content_env\<lparr>fetch_result := Inr ?r2\<rparr>"
  have l: "lower ''Content-Type'' = ''content-type''"
    "lower ''Content-Range'' = ''content-range''"
    "lower ''Content-Length'' = ''content-length''" "lower ''Server'' = ''server''"
    "lower ''Set-Cookie'' = ''set-cookie''" "lower ''X-Cache'' = ''x-cache''"
    "lower ''X-Cache-Lookup'' = ''x-cache-lookup''" "lower ''Age'' = ''age''"
    by code_simp+
  have hit: "str_in ''HIT'' ''HIT from proxy''" "\<not> str_in ''HIT'' ''MISS from proxy''"
    by code_simp+
  have f1: "fetch_result partial_content_env = Inr partial_content"
    by (simp add: partial_content_env_def)
  have f2: "fetch_result ?env2 = Inr ?r2"
    by simp
  have w: "without_diagnostic (up_headers partial_content) = without_diagnostic ?hs"
    by (simp add: without_diagnostic_def diagnostic_headers_def partial_content_def l)
  have w': "without_diagnostic (up_headers partial_content) = without_diagnostic (up_headers ?r2)"
    using w by simp
  have c1: "cache_status (up_headers partial_content) = (Dart, ''CACHE HIT'')"
    using hit by (simp add: cache_status_def partial_content_def truthy_def l)
  have c2: "cache_status ?hs = (Snowflake, ''CACHE MISS'')"
    using hit by (simp add: cache_status_def truthy_def l)
  from diagnostic_headers_do_not_matter
         [OF f1 f2 _ _ w', of id example_cfg range_request]
  have "result (proxy_handler id example_cfg range_request partial_content_env)
          = result (proxy_handler id example_cfg range_request ?env2)
        \<and> sent (proxy_handler id example_cfg range_request partial_content_env)
          = sent (proxy_handler id example_cfg range_request ?env2)"
    by simp
  with f1 f2 w c1 c2 show ?thesis
    by simp
qed







end
